theory Spec2Isabelle
  imports Main "HOL-Library.Word"
begin

section \<open>Data model\<close>

text \<open>
  The dense layer of \<^verbatim>\<open>src/layers/layers.cpp\<close> builds a symbolic graph through
  the graph engine's front end (namespace \<^verbatim>\<open>fe\<close>) and keeps four tensors of its own.
  The engine's headers and the repository's \<^verbatim>\<open>Tensor\<close> class are not among the
  sources; what the layer uses of them is modelled below, each such definition marked.
\<close>

text \<open>
  Modelled from the spec: the enumerations \<^verbatim>\<open>fe::DataType_t\<close>,
  \<^verbatim>\<open>fe::PointwiseMode_t\<close> and \<^verbatim>\<open>fe::ReductionMode_t\<close> are declared in the
  engine's headers. The spec names a closed set of element types with 32-bit
  float, 64-bit float and 32-bit integer among others, and an operation-mode
  tag such as ADD; the layer's code tests for \<^verbatim>\<open>FLOAT\<close>, \<^verbatim>\<open>DOUBLE\<close> and
  \<^verbatim>\<open>INT32\<close> and uses the mode \<^verbatim>\<open>ADD\<close> only.
\<close>

datatype DataType_t =
  NOT_SET | FLOAT | DOUBLE | HALF | INT8 | INT32 | UINT8 | BFLOAT16 | INT64 | BOOLEAN

datatype PointwiseMode_t = PointwiseMode_ADD | PointwiseMode_MUL | PointwiseMode_SUB

datatype ReductionMode_t = ReductionMode_ADD | ReductionMode_MUL | ReductionMode_MIN | ReductionMode_MAX

text \<open>
  A \<^verbatim>\<open>fe::graph::Tensor_attributes\<close> object, with the four attributes the layer
  reads or writes. The objects are shared through \<^verbatim>\<open>std::shared_ptr\<close>, so the
  model keeps them in a store and a handle is an index into it: two handles
  alias exactly when they are the same index.
\<close>

record Tensor_attributes =
  name :: string
  data_type :: DataType_t
  dim :: "int list"
  is_virtual :: bool

type_synonym handle = nat

text \<open>
  The operation nodes the layer asks the graph for. \<^verbatim>\<open>Matmul a b t c\<close> multiplies
  \<open>a\<close> by \<open>b\<close> with compute type \<open>t\<close> into \<open>c\<close>; the other two carry their mode
  as well.
\<close>

datatype operation =
  Matmul handle handle DataType_t handle
| Pointwise PointwiseMode_t handle handle DataType_t handle
| Reduction ReductionMode_t handle DataType_t handle

record Graph =
  tensors :: "Tensor_attributes list"
  sub_nodes :: "operation list"

text \<open>
  Modelled from the spec: the repository's \<^verbatim>\<open>Tensor\<close> class is not among the
  sources. By the spec a tensor descriptor has a symbolic name, an element data
  type, a shape and a storage location (host or device). The host buffer behind
  \<^verbatim>\<open>get_mutable_host_ptr\<close> is a \<^verbatim>\<open>void*\<close>: untyped memory, here the sequence of
  its bytes. A tensor of \<open>n\<close> elements of a type owns \<open>n\<close> times the size of
  that type; the sizes are those the names of the types give (32-bit float 4
  bytes, 64-bit float 8 bytes, 32-bit integer 4 bytes, and so on).
\<close>

record Tensor =
  tensor_name :: string
  tensor_data_type :: DataType_t
  shape :: "int list"
  is_on_host :: bool
  host_ptr :: "8 word list"

fun element_size :: "DataType_t \<Rightarrow> nat" where
  "element_size NOT_SET = 0"
| "element_size FLOAT = 4"
| "element_size DOUBLE = 8"
| "element_size HALF = 2"
| "element_size INT8 = 1"
| "element_size INT32 = 4"
| "element_size UINT8 = 1"
| "element_size BFLOAT16 = 2"
| "element_size INT64 = 8"
| "element_size BOOLEAN = 1"

text \<open>
  \<^verbatim>\<open>DenseLayer\<close>: the members the source file uses. \<open>layer_name\<close> and
  \<open>layer_data_type\<close> are the members \<^verbatim>\<open>name_\<close> and \<^verbatim>\<open>data_type_\<close>; the four
  tensors are \<^verbatim>\<open>weights_\<close>, \<^verbatim>\<open>bias_\<close>, \<^verbatim>\<open>weights_grad_\<close> and
  \<^verbatim>\<open>bias_grad_\<close>.
\<close>

record DenseLayer =
  layer_name :: string
  layer_data_type :: DataType_t
  weights :: Tensor
  bias :: Tensor
  weights_grad :: Tensor
  bias_grad :: Tensor

text \<open>
  The address of a tensor member of a layer: what \<^verbatim>\<open>&weights_\<close> and its
  siblings evaluate to, relative to the layer object.
\<close>

datatype member = Weights | Bias | Weights_grad | Bias_grad

fun deref_member :: "DenseLayer \<Rightarrow> member \<Rightarrow> Tensor" where
  "deref_member L Weights = weights L"
| "deref_member L Bias = bias L"
| "deref_member L Weights_grad = weights_grad L"
| "deref_member L Bias_grad = bias_grad L"

datatype error = NullHandle | OutOfBounds | SignedOverflow | PreconditionFailure | UnsupportedConfiguration

section \<open>The graph engine, as far as the layer relies on it\<close>

text \<open>
  The engine decides the shape of an operation's output; the layer never sets
  it, and neither the sources nor the spec give the engine's shape rules. The
  engine is therefore a parameter: three functions from the operand shapes to
  the output shape. Every property of the layer below is stated for an
  arbitrary engine.
\<close>

record registry =
  matmul_dim :: "int list \<Rightarrow> int list \<Rightarrow> int list"
  pointwise_dim :: "int list \<Rightarrow> int list \<Rightarrow> int list"
  reduction_dim :: "int list \<Rightarrow> int list"

text \<open>
  Modelled from the spec: the operations \<^verbatim>\<open>matmul\<close>, \<^verbatim>\<open>pointwise\<close> and
  \<^verbatim>\<open>reduction\<close> of the Graph Node Registry. Each call appends an operation node
  that carries the operand handles and the attributes (compute data type, and
  mode), and returns the handle of a new output object, which no earlier handle
  names. The output starts unnamed, untyped and not virtual, with the shape the
  registry infers from the shapes its operands have at the call; operands are
  not dereferenced otherwise.
\<close>

definition dim_of :: "Graph \<Rightarrow> handle \<Rightarrow> int list" where
  "dim_of g r = (if r < length (tensors g) then dim (tensors g ! r) else [])"

definition new_tensor :: "Tensor_attributes \<Rightarrow> Graph \<Rightarrow> handle \<times> Graph" where
  "new_tensor t g = (length (tensors g), g\<lparr>tensors := tensors g @ [t]\<rparr>)"

text \<open>
  The chained setters \<^verbatim>\<open>p->set_...(...)\<close>: an update of the object behind the
  handle, seen through every alias.
\<close>

definition update_tensor ::
  "handle \<Rightarrow> (Tensor_attributes \<Rightarrow> Tensor_attributes) \<Rightarrow> Graph \<Rightarrow> Graph" where
  "update_tensor r f g = g\<lparr>tensors := (tensors g)[r := f (tensors g ! r)]\<rparr>"

definition output_tensor :: "int list \<Rightarrow> Tensor_attributes" where
  "output_tensor d = \<lparr>name = [], data_type = NOT_SET, dim = d, is_virtual = False\<rparr>"

definition graph_matmul ::
  "registry \<Rightarrow> handle \<Rightarrow> handle \<Rightarrow> DataType_t \<Rightarrow> Graph \<Rightarrow> handle \<times> Graph" where
  "graph_matmul reg a b t g =
     (let (c, g') = new_tensor (output_tensor (matmul_dim reg (dim_of g a) (dim_of g b))) g
      in (c, g'\<lparr>sub_nodes := sub_nodes g' @ [Matmul a b t c]\<rparr>))"

definition graph_pointwise ::
  "registry \<Rightarrow> handle \<Rightarrow> handle \<Rightarrow> DataType_t \<times> PointwiseMode_t \<Rightarrow> Graph \<Rightarrow> handle \<times> Graph" where
  "graph_pointwise reg a b attrs g =
     (let (c, g') = new_tensor (output_tensor (pointwise_dim reg (dim_of g a) (dim_of g b))) g
      in (c, g'\<lparr>sub_nodes := sub_nodes g' @ [Pointwise (snd attrs) a b (fst attrs) c]\<rparr>))"

definition graph_reduction ::
  "registry \<Rightarrow> handle \<Rightarrow> DataType_t \<times> ReductionMode_t \<Rightarrow> Graph \<Rightarrow> handle \<times> Graph" where
  "graph_reduction reg a attrs g =
     (let (c, g') = new_tensor (output_tensor (reduction_dim reg (dim_of g a))) g
      in (c, g'\<lparr>sub_nodes := sub_nodes g' @ [Reduction (snd attrs) a (fst attrs) c]\<rparr>))"

text \<open>
  Modelled from the spec: \<^verbatim>\<open>Tensor::create_graph_tensor_attributes\<close> is a method of
  the repository's tensor class, which is not among the sources. By the spec
  the builder borrows the tensor to create a fresh graph-tensor attribute from
  it: a new object with the tensor's name, element type and shape, bound to
  real storage (not virtual). The tensor itself is left as it is.
\<close>

definition create_graph_tensor_attributes :: "Tensor \<Rightarrow> Graph \<Rightarrow> handle \<times> Graph" where
  "create_graph_tensor_attributes t g =
     new_tensor \<lparr>name = tensor_name t, data_type = tensor_data_type t,
                 dim = shape t, is_virtual = False\<rparr> g"

section \<open>The layer's operations\<close>

subsection \<open>Forward\<close>

definition add_forward_to_graph ::
  "registry \<Rightarrow> DenseLayer \<Rightarrow> Graph \<Rightarrow> handle \<Rightarrow> handle \<times> DenseLayer \<times> Graph" where
  "add_forward_to_graph reg L graph input_tensor_graph_ref =
     (let matmul_operation = tensor_data_type (weights L);
          add_operation = (tensor_data_type (bias L), PointwiseMode_ADD);
          (weights_tensor_attributes, g1) = create_graph_tensor_attributes (weights L) graph;
          (bias_tensor_attributes, g2) = create_graph_tensor_attributes (bias L) g1;
          (weights_output_tensor_attributes, g3) =
             graph_matmul reg input_tensor_graph_ref weights_tensor_attributes matmul_operation g2;
          g4 = update_tensor weights_output_tensor_attributes
                 (\<lambda>t. t\<lparr>is_virtual := True,
                        name := layer_name L @ ''_weights_matmul_out'',
                        data_type := layer_data_type L\<rparr>) g3;
          (output_tensor_attributes, g5) =
             graph_pointwise reg weights_output_tensor_attributes bias_tensor_attributes
               add_operation g4;
          g6 = update_tensor output_tensor_attributes
                 (\<lambda>t. t\<lparr>is_virtual := True,
                        name := layer_name L @ ''_bias_add_out'',
                        data_type := layer_data_type L\<rparr>) g5
      in (output_tensor_attributes, L, g6))"

subsection \<open>Backward\<close>

text \<open>
  \<^verbatim>\<open>size - 1\<close> and \<^verbatim>\<open>size - 2\<close> are computed in \<^verbatim>\<open>size_t\<close>: below zero the
  result wraps around to the top of the 64-bit range.
\<close>

definition size_t_sub :: "nat \<Rightarrow> nat \<Rightarrow> nat" where
  "size_t_sub n k = (if k \<le> n then n - k else n + 2 ^ 64 - k)"

text \<open>
  \<^verbatim>\<open>std::swap(v[i], v[j])\<close> on a \<^verbatim>\<open>std::vector\<close>: \<^verbatim>\<open>operator[]\<close> checks nothing,
  an index past the end is undefined behaviour, which the model reports.
\<close>

definition swap_at :: "int list \<Rightarrow> nat \<Rightarrow> nat \<Rightarrow> error + int list" where
  "swap_at v i j =
     (if i < length v \<and> j < length v then Inr (v[i := v ! j, j := v ! i])
      else Inl OutOfBounds)"

text \<open>
  The forward-input handle is dereferenced (\<^verbatim>\<open>->get_dim()\<close>); a handle that
  names no object of the caller's store is a null or dangling pointer. The
  parameter \<^verbatim>\<open>fwd_output_tensor_ref\<close> is never used.
\<close>

definition add_backward_to_graph ::
  "registry \<Rightarrow> DenseLayer \<Rightarrow> Graph \<Rightarrow> handle \<Rightarrow> handle \<Rightarrow> handle \<Rightarrow>
   error + (handle \<times> DenseLayer \<times> Graph)" where
  "add_backward_to_graph reg L graph output_grad_graph_ref fwd_input_tensor_ref
       fwd_output_tensor_ref =
     (let matmul_operation = tensor_data_type (weights_grad L);
          (weights_grad_tensor_attributes, g1) =
             create_graph_tensor_attributes (weights_grad L) graph
      in
      if \<not> fwd_input_tensor_ref < length (tensors graph) then Inl NullHandle
      else
        let fwd_input_tensor_ref_shape = dim (tensors g1 ! fwd_input_tensor_ref);
            fwd_input_tensor_ref_shape_size = length fwd_input_tensor_ref_shape
        in
        case swap_at fwd_input_tensor_ref_shape
               (size_t_sub fwd_input_tensor_ref_shape_size 1)
               (size_t_sub fwd_input_tensor_ref_shape_size 2) of
          Inl e \<Rightarrow> Inl e
        | Inr fwd_input_tensor_ref_shape' \<Rightarrow>
            let g2 = update_tensor fwd_input_tensor_ref
                       (\<lambda>t. t\<lparr>dim := fwd_input_tensor_ref_shape',
                              is_virtual := True,
                              data_type := layer_data_type L\<rparr>) g1;
                (weights_grad_tensor_attributes, g3) =
                   graph_matmul reg fwd_input_tensor_ref output_grad_graph_ref
                     matmul_operation g2;
                g4 = update_tensor weights_grad_tensor_attributes
                       (\<lambda>t. t\<lparr>is_virtual := True,
                              name := layer_name L @ ''_weights_matmul_out_bwd'',
                              data_type := layer_data_type L\<rparr>) g3;
                reduction_operation = (tensor_data_type (bias_grad L), ReductionMode_ADD);
                (bias_grad_tensor_attributes, g5) =
                   create_graph_tensor_attributes (bias_grad L) g4;
                (bias_grad_tensor_attributes, g6) =
                   graph_reduction reg output_grad_graph_ref reduction_operation g5;
                g7 = update_tensor bias_grad_tensor_attributes
                       (\<lambda>t. t\<lparr>is_virtual := True,
                              name := layer_name L @ ''_bias_add_out_bwd'',
                              data_type := layer_data_type L\<rparr>) g6;
                (weights_tensor_attributes, g8) =
                   create_graph_tensor_attributes (weights L) g7;
                weights_tensor_shape = dim (tensors g8 ! weights_tensor_attributes);
                weights_tensor_shape_size = length weights_tensor_shape
            in
            case swap_at weights_tensor_shape
                   (size_t_sub weights_tensor_shape_size 1)
                   (size_t_sub weights_tensor_shape_size 2) of
              Inl e \<Rightarrow> Inl e
            | Inr weights_tensor_shape' \<Rightarrow>
                let g9 = update_tensor weights_tensor_attributes
                           (\<lambda>t. t\<lparr>dim := weights_tensor_shape',
                                  is_virtual := True,
                                  data_type := layer_data_type L\<rparr>) g8;
                    (output_tensor_attributes, g10) =
                       graph_matmul reg output_grad_graph_ref weights_tensor_attributes
                         matmul_operation g9;
                    g11 = update_tensor output_tensor_attributes
                            (\<lambda>t. t\<lparr>is_virtual := True,
                                   name := layer_name L @ ''_output_bwd'',
                                   data_type := layer_data_type L\<rparr>) g10
                in Inr (output_tensor_attributes, L, g11))"

subsection \<open>Accessors\<close>

text \<open>
  Both accessors build a two-element vector of member addresses. They are
  non-const methods, so the model hands the layer back with the result.
\<close>

definition get_parameters :: "DenseLayer \<Rightarrow> member list \<times> DenseLayer" where
  "get_parameters L = ([Weights, Bias], L)"

definition get_gradients :: "DenseLayer \<Rightarrow> member list \<times> DenseLayer" where
  "get_gradients L = ([Weights_grad, Bias_grad], L)"

subsection \<open>Initializer\<close>

text \<open>
  \<^verbatim>\<open>std::mt19937\<close> and \<^verbatim>\<open>std::normal_distribution\<close> belong to the C++ standard
  library, and the values they produce are floating-point numbers: they are
  parameters here. \<open>mt19937 e seed\<close> is the state of the generator built from
  the seed, together with a fresh distribution object; \<open>normal_float e\<close> and
  \<open>normal_double e\<close> are one call \<^verbatim>\<open>dist(gen)\<close>, which returns the value drawn
  and the state after the draw. A value is given by its bits: 32 for a
  \<^verbatim>\<open>float\<close>, 64 for a \<^verbatim>\<open>double\<close>.
\<close>

record 's random_engine =
  mt19937 :: "64 word \<Rightarrow> 's"
  normal_float :: "'s \<Rightarrow> 32 word \<times> 's"
  normal_double :: "'s \<Rightarrow> 64 word \<times> 's"

text \<open>
  The bytes a value occupies in memory, lowest address first (the least
  significant byte first, as on the hosts the library runs on): as many as the
  type is wide. \<open>store_bytes buf at bytes\<close> is the buffer after the bytes are
  written from offset \<open>at\<close> on.
\<close>

definition object_bytes :: "'a::len word \<Rightarrow> 8 word list" where
  "object_bytes v = map (\<lambda>k. ucast (drop_bit (8 * k) v)) [0..<LENGTH('a) div 8]"

definition store_bytes :: "8 word list \<Rightarrow> nat \<Rightarrow> 8 word list \<Rightarrow> 8 word list" where
  "store_bytes buf at bytes = take at buf @ bytes @ drop (at + length bytes) buf"

text \<open>
  How a call ends: it returns, or it stops at a failure. Every path of the
  initializer also yields the layer as it is at that point and the indices of
  the buffer stored to so far, in the order of the stores.
\<close>

datatype outcome = Returns | Fails error

text \<open>
  Modelled from the spec: \<^verbatim>\<open>Tensor::get_num_elements\<close> is a method of the
  repository's tensor class, which is not among the sources; the number of
  elements of a tensor is the product of its dimensions.
\<close>

definition get_num_elements :: "Tensor \<Rightarrow> nat" where
  "get_num_elements t = nat (prod_list (shape t))"

text \<open>
  The loop \<^verbatim>\<open>for (int i = 0; i < num_elem; ++i) static_cast<T*>(p)[i] = dist(gen);\<close>
  with \<^verbatim>\<open>T\<close> the type of the values drawn, \<^verbatim>\<open>float\<close> or \<^verbatim>\<open>double\<close>. The store
  at index \<open>i\<close> of the cast pointer writes the bytes of the value from offset
  \<open>i * sizeof(T)\<close> on, whatever the tensor's own element type is; a store that
  reaches past the end of the buffer is undefined behaviour, which the model
  reports. The counter is an \<^verbatim>\<open>int\<close> and the bound a \<^verbatim>\<open>size_t\<close>: the comparison
  converts the counter, which is never negative, and \<^verbatim>\<open>++i\<close> at \<open>2147483647\<close>
  overflows, which is undefined behaviour as well. \<open>stores\<close> collects the
  indices stored to.
\<close>

function fill_loop ::
  "('s \<Rightarrow> 'a::len word \<times> 's) \<Rightarrow> nat \<Rightarrow> nat \<Rightarrow> 8 word list \<Rightarrow> nat list \<Rightarrow> 's \<Rightarrow>
   outcome \<times> 8 word list \<times> nat list \<times> 's" where
  "fill_loop dist num_elem i buf stores gen =
     (if i < num_elem then
        (let (v, gen') = dist gen;
             bytes = object_bytes v;
             at = i * length bytes
         in if at + length bytes \<le> length buf then
              (let buf' = store_bytes buf at bytes;
                   stores' = stores @ [i]
               in if i = 2147483647 then (Fails SignedOverflow, buf', stores', gen')
                  else fill_loop dist num_elem (i + 1) buf' stores' gen')
            else (Fails OutOfBounds, buf, stores, gen'))
      else (Returns, buf, stores, gen))"
  by pat_completeness auto
termination
  by (relation "measure (\<lambda>(dist, num_elem, i, buf, stores, gen). num_elem - i)") auto

text \<open>
  Modelled from the spec: the macros \<^verbatim>\<open>USHIONN_ASSERT\<close> and \<^verbatim>\<open>USHIONN_LOG_FATAL\<close>
  are defined outside the sources. By the spec a failed assertion is a
  precondition failure that aborts the operation, and the fatal log is the
  unsupported-configuration failure, which does not return either.
\<close>

definition initialize_parameters_norm ::
  "'s random_engine \<Rightarrow> DenseLayer \<Rightarrow> 64 word \<Rightarrow>
   outcome \<times> DenseLayer \<times> nat list" where
  "initialize_parameters_norm e L seed =
     (if \<not> is_on_host (weights L) then (Fails PreconditionFailure, L, [])
      else
        let num_elem = get_num_elements (weights L);
            gen = mt19937 e seed
        in
        if layer_data_type L = FLOAT then
          (let (res, buf, stores, gen') =
                 fill_loop (normal_float e) num_elem 0 (host_ptr (weights L)) [] gen
           in (res, L\<lparr>weights := (weights L)\<lparr>host_ptr := buf\<rparr>\<rparr>, stores))
        else if layer_data_type L = DOUBLE then
          (let (res, buf, stores, gen') =
                 fill_loop (normal_double e) num_elem 0 (host_ptr (weights L)) [] gen
           in (res, L\<lparr>weights := (weights L)\<lparr>host_ptr := buf\<rparr>\<rparr>, stores))
        else if layer_data_type L = INT32 then (Fails UnsupportedConfiguration, L, [])
        else (Returns, L, []))"

section \<open>Notions used to state the properties\<close>

text \<open>
  The values that \<open>k\<close> successive calls \<^verbatim>\<open>dist(gen)\<close> return, and the state of
  the generator after them.
\<close>

fun draws :: "('s \<Rightarrow> 'v \<times> 's) \<Rightarrow> 's \<Rightarrow> nat \<Rightarrow> 'v list" where
  "draws dist gen 0 = []"
| "draws dist gen (Suc k) = fst (dist gen) # draws dist (snd (dist gen)) k"

fun gen_after :: "('s \<Rightarrow> 'v \<times> 's) \<Rightarrow> 's \<Rightarrow> nat \<Rightarrow> 's" where
  "gen_after dist gen 0 = gen"
| "gen_after dist gen (Suc k) = gen_after dist (snd (dist gen)) k"

text \<open>The handles an operation node refers to, operands first, output last.\<close>

fun handles_of :: "operation \<Rightarrow> handle list" where
  "handles_of (Matmul a b t c) = [a, b, c]"
| "handles_of (Pointwise m a b t c) = [a, b, c]"
| "handles_of (Reduction m a t c) = [a, c]"

fun output_of :: "operation \<Rightarrow> handle" where
  "output_of (Matmul a b t c) = c"
| "output_of (Pointwise m a b t c) = c"
| "output_of (Reduction m a t c) = c"


section \<open>Concrete layers, graphs and engines\<close>

text \<open>
  Two stand-ins for the engine's shape inference, to run the examples on.
  \<open>example_registry\<close> gives a matrix product the leading dimensions of its left
  operand followed by the last dimension of its right operand, an addition the
  shape of its left operand, and a reduction the last dimension of its operand
  (it sums over the leading ones). \<open>last_axis_registry\<close> differs in the
  reduction, which sums over the last dimension and keeps the leading ones.
\<close>

definition example_registry :: registry where
  "example_registry =
     \<lparr>matmul_dim = (\<lambda>a b. butlast a @ (if b = [] then [] else [last b])),
      pointwise_dim = (\<lambda>a b. a),
      reduction_dim = (\<lambda>a. if a = [] then [] else [last a])\<rparr>"


text \<open>
  The example of the spec: a layer with 4 input and 3 output features, and a
  graph holding the forward input of shape \<open>[8, 4]\<close> at handle 0 and the
  gradient of the output, of shape \<open>[8, 3]\<close>, at handle 1. In
  \<open>short_batch_graph\<close> the forward input has the shape \<open>[5, 4]\<close> instead.
\<close>

definition example_layer :: "DenseLayer" where
  "example_layer =
     \<lparr>layer_name = ''fc'', layer_data_type = FLOAT,
      weights = \<lparr>tensor_name = ''w'', tensor_data_type = FLOAT, shape = [4, 3],
                 is_on_host = True, host_ptr = replicate 48 0\<rparr>,
      bias = \<lparr>tensor_name = ''b'', tensor_data_type = FLOAT, shape = [3],
              is_on_host = True, host_ptr = replicate 12 0\<rparr>,
      weights_grad = \<lparr>tensor_name = ''dw'', tensor_data_type = FLOAT, shape = [4, 3],
                      is_on_host = True, host_ptr = replicate 48 0\<rparr>,
      bias_grad = \<lparr>tensor_name = ''db'', tensor_data_type = FLOAT, shape = [3],
                   is_on_host = True, host_ptr = replicate 12 0\<rparr>\<rparr>"

definition example_graph :: Graph where
  "example_graph =
     \<lparr>tensors = [\<lparr>name = ''x'', data_type = FLOAT, dim = [8, 4], is_virtual = False\<rparr>,
                 \<lparr>name = ''dy'', data_type = FLOAT, dim = [8, 3], is_virtual = False\<rparr>],
      sub_nodes = []\<rparr>"


text \<open>
  A layer with two weights, for the initializer: its configured data type, the
  storage type of its weight tensor, whether the weights are on the host, and
  the bytes of the weight buffer are the parameters.
\<close>

definition small_layer :: "DataType_t \<Rightarrow> DataType_t \<Rightarrow> bool \<Rightarrow> 8 word list \<Rightarrow> DenseLayer" where
  "small_layer t tw host buf =
     \<lparr>layer_name = ''fc'', layer_data_type = t,
      weights = \<lparr>tensor_name = ''w'', tensor_data_type = tw, shape = [1, 2],
                 is_on_host = host, host_ptr = buf\<rparr>,
      bias = \<lparr>tensor_name = ''b'', tensor_data_type = tw, shape = [2],
              is_on_host = host, host_ptr = replicate (2 * element_size tw) 0\<rparr>,
      weights_grad = \<lparr>tensor_name = ''dw'', tensor_data_type = tw, shape = [1, 2],
                      is_on_host = host, host_ptr = replicate (2 * element_size tw) 0\<rparr>,
      bias_grad = \<lparr>tensor_name = ''db'', tensor_data_type = tw, shape = [2],
                   is_on_host = host, host_ptr = replicate (2 * element_size tw) 0\<rparr>\<rparr>"

text \<open>
  A layer configured for 32-bit floats whose weight tensor stores
  \<open>2\<^sup>3\<^sup>1 + 1\<close> of them on the host, in a buffer of four times as many bytes.
\<close>

definition huge_layer :: DenseLayer where
  "huge_layer =
     \<lparr>layer_name = ''fc'', layer_data_type = FLOAT,
      weights = \<lparr>tensor_name = ''w'', tensor_data_type = FLOAT, shape = [2147483649, 1],
                 is_on_host = True, host_ptr = replicate 8589934596 0\<rparr>,
      bias = \<lparr>tensor_name = ''b'', tensor_data_type = FLOAT, shape = [1],
              is_on_host = True, host_ptr = replicate 4 0\<rparr>,
      weights_grad = \<lparr>tensor_name = ''dw'', tensor_data_type = FLOAT, shape = [2147483649, 1],
                      is_on_host = True, host_ptr = replicate 8589934596 0\<rparr>,
      bias_grad = \<lparr>tensor_name = ''db'', tensor_data_type = FLOAT, shape = [1],
                   is_on_host = True, host_ptr = replicate 4 0\<rparr>\<rparr>"

text \<open>
  A stand-in for the random engine, to run the initializer on: the state is a
  counter started at the seed, and a draw returns the counter (twice the
  counter for the double-precision distribution).
\<close>

definition counting_engine :: "nat random_engine" where
  "counting_engine =
     \<lparr>mt19937 = unat, normal_float = (\<lambda>s. (of_nat s, Suc s)),
      normal_double = (\<lambda>s. (of_nat (2 * s), Suc s))\<rparr>"

section \<open>Facts about the store and the swap\<close>

lemma swap_at_last_two:
  "swap_at (pre @ [a, b]) (size_t_sub (length (pre @ [a, b])) 1)
     (size_t_sub (length (pre @ [a, b])) 2) = Inr (pre @ [b, a])"
  by (simp add: swap_at_def size_t_sub_def list_update_append nth_append)

lemma swap_at_short:
  "length v < 2 \<Longrightarrow>
   swap_at v (size_t_sub (length v) 1) (size_t_sub (length v) 2) = Inl OutOfBounds"
  by (auto simp add: swap_at_def size_t_sub_def)

lemma last_two_exist:
  assumes "2 \<le> length (v :: 'a list)"
  shows "\<exists>pre a b. v = pre @ [a, b]"
proof -
  obtain ys b where v: "v = ys @ [b]"
    using assms by (cases v rule: rev_cases) auto
  obtain pre a where "ys = pre @ [a]"
    using assms v by (cases ys rule: rev_cases) auto
  with v show ?thesis by simp
qed

text \<open>
  The whole effect of a backward call whose handles are live and whose two
  shapes have a last and a last-but-one dimension.
\<close>

lemma add_backward_to_graph_result:
  assumes x: "x < length (tensors g)" and dy: "dy < length (tensors g)"
    and dx: "dim (tensors g ! x) = pre @ [a, b]"
    and w: "shape (weights L) = wpre @ [c, d]"
  shows "add_backward_to_graph reg L g dy x y =
    Inr (length (tensors g) + 5, L,
      \<lparr>tensors =
         (tensors g)[x := (tensors g ! x)\<lparr>dim := pre @ [b, a], is_virtual := True,
                                          data_type := layer_data_type L\<rparr>] @
         [\<lparr>name = tensor_name (weights_grad L), data_type = tensor_data_type (weights_grad L),
           dim = shape (weights_grad L), is_virtual = False\<rparr>,
          \<lparr>name = layer_name L @ ''_weights_matmul_out_bwd'', data_type = layer_data_type L,
           dim = matmul_dim reg (pre @ [b, a])
                   (if dy = x then pre @ [b, a] else dim (tensors g ! dy)),
           is_virtual = True\<rparr>,
          \<lparr>name = tensor_name (bias_grad L), data_type = tensor_data_type (bias_grad L),
           dim = shape (bias_grad L), is_virtual = False\<rparr>,
          \<lparr>name = layer_name L @ ''_bias_add_out_bwd'', data_type = layer_data_type L,
           dim = reduction_dim reg (if dy = x then pre @ [b, a] else dim (tensors g ! dy)),
           is_virtual = True\<rparr>,
          \<lparr>name = tensor_name (weights L), data_type = layer_data_type L,
           dim = wpre @ [d, c], is_virtual = True\<rparr>,
          \<lparr>name = layer_name L @ ''_output_bwd'', data_type = layer_data_type L,
           dim = matmul_dim reg (if dy = x then pre @ [b, a] else dim (tensors g ! dy))
                   (wpre @ [d, c]),
           is_virtual = True\<rparr>],
       sub_nodes = sub_nodes g @
         [Matmul x dy (tensor_data_type (weights_grad L)) (length (tensors g) + 1),
          Reduction ReductionMode_ADD dy (tensor_data_type (bias_grad L)) (length (tensors g) + 3),
          Matmul dy (length (tensors g) + 4) (tensor_data_type (weights_grad L))
            (length (tensors g) + 5)]\<rparr>)"
proof -
  have sx: "swap_at (pre @ [a, b]) (size_t_sub (Suc (Suc (length pre))) (Suc 0))
     (size_t_sub (Suc (Suc (length pre))) 2) = Inr (pre @ [b, a])"
    using swap_at_last_two[of pre a b] by simp
  have sw: "swap_at (wpre @ [c, d]) (size_t_sub (Suc (Suc (length wpre))) (Suc 0))
     (size_t_sub (Suc (Suc (length wpre))) 2) = Inr (wpre @ [d, c])"
    using swap_at_last_two[of wpre c d] by simp
  show ?thesis
    using x dy
    by (simp add: add_backward_to_graph_def create_graph_tensor_attributes_def graph_matmul_def
      graph_reduction_def new_tensor_def update_tensor_def output_tensor_def dim_of_def
      Let_def nth_append dx w sx sw list_update_append nth_list_update)
qed

text \<open>Whether the call gets past its two swaps depends on the two lengths only.\<close>

lemma add_backward_to_graph_returns:
  assumes "x < length (tensors g)" "2 \<le> length (dim (tensors g ! x))"
    and "2 \<le> length (shape (weights L))"
  shows "\<exists>g'. add_backward_to_graph reg L g dy x y = Inr (length (tensors g) + 5, L, g')"
proof -
  obtain pre a b where dx: "dim (tensors g ! x) = pre @ [a, b]"
    using last_two_exist[OF assms(2)] by blast
  obtain wpre c d where w: "shape (weights L) = wpre @ [c, d]"
    using last_two_exist[OF assms(3)] by blast
  have sx: "swap_at (pre @ [a, b]) (size_t_sub (Suc (Suc (length pre))) (Suc 0))
     (size_t_sub (Suc (Suc (length pre))) 2) = Inr (pre @ [b, a])"
    using swap_at_last_two[of pre a b] by simp
  have sw: "swap_at (wpre @ [c, d]) (size_t_sub (Suc (Suc (length wpre))) (Suc 0))
     (size_t_sub (Suc (Suc (length wpre))) 2) = Inr (wpre @ [d, c])"
    using swap_at_last_two[of wpre c d] by simp
  show ?thesis
    using assms(1)
    by (simp add: add_backward_to_graph_def create_graph_tensor_attributes_def graph_matmul_def
      graph_reduction_def new_tensor_def update_tensor_def Let_def nth_append dx w sx sw)
qed

lemma add_backward_to_graph_input_short:
  assumes "x < length (tensors g)" "length (dim (tensors g ! x)) < 2"
  shows "add_backward_to_graph reg L g dy x y = Inl OutOfBounds"
proof -
  have "swap_at (dim (tensors g ! x)) (size_t_sub (length (dim (tensors g ! x))) (Suc 0))
     (size_t_sub (length (dim (tensors g ! x))) 2) = Inl OutOfBounds"
    using swap_at_short[OF assms(2)] by simp
  then show ?thesis
    using assms(1)
    by (simp add: add_backward_to_graph_def create_graph_tensor_attributes_def new_tensor_def
      Let_def nth_append)
qed

lemma add_backward_to_graph_weights_short:
  assumes "x < length (tensors g)" "2 \<le> length (dim (tensors g ! x))"
    and "length (shape (weights L)) < 2"
  shows "add_backward_to_graph reg L g dy x y = Inl OutOfBounds"
proof -
  obtain pre a b where dx: "dim (tensors g ! x) = pre @ [a, b]"
    using last_two_exist[OF assms(2)] by blast
  have sx: "swap_at (pre @ [a, b]) (size_t_sub (Suc (Suc (length pre))) (Suc 0))
     (size_t_sub (Suc (Suc (length pre))) 2) = Inr (pre @ [b, a])"
    using swap_at_last_two[of pre a b] by simp
  have sw: "swap_at (shape (weights L)) (size_t_sub (length (shape (weights L))) (Suc 0))
     (size_t_sub (length (shape (weights L))) 2) = Inl OutOfBounds"
    using swap_at_short[OF assms(3)] by simp
  show ?thesis
    using assms(1)
    by (simp add: add_backward_to_graph_def create_graph_tensor_attributes_def graph_matmul_def
      graph_reduction_def new_tensor_def update_tensor_def Let_def nth_append dx sx sw)
qed

text \<open>The concrete objects, as the facts the examples below compute with.\<close>

lemma example_graph_facts:
  "length (tensors example_graph) = 2"
  "tensors example_graph ! 0 = \<lparr>name = ''x'', data_type = FLOAT, dim = [8, 4], is_virtual = False\<rparr>"
  "tensors example_graph ! 1 = \<lparr>name = ''dy'', data_type = FLOAT, dim = [8, 3], is_virtual = False\<rparr>"
  "tensors example_graph ! Suc 0 = \<lparr>name = ''dy'', data_type = FLOAT, dim = [8, 3], is_virtual = False\<rparr>"
  "sub_nodes example_graph = []"
  by (simp_all add: example_graph_def)

lemma example_layer_facts:
  "layer_name example_layer = ''fc''"
  "layer_data_type example_layer = FLOAT"
  "tensor_name (weights example_layer) = ''w''"
  "shape (weights example_layer) = [4, 3]"
  "tensor_data_type (weights_grad example_layer) = FLOAT"
  "tensor_data_type (bias_grad example_layer) = FLOAT"
  "tensor_name (weights_grad example_layer) = ''dw''"
  "tensor_name (bias_grad example_layer) = ''db''"
  "shape (weights_grad example_layer) = [4, 3]"
  "shape (bias_grad example_layer) = [3]"
  by (simp_all add: example_layer_def)

lemma example_registry_facts:
  "matmul_dim example_registry a b = butlast a @ (if b = [] then [] else [last b])"
  "pointwise_dim example_registry a b = a"
  "reduction_dim example_registry a = (if a = [] then [] else [last a])"
  by (simp_all add: example_registry_def)



lemmas example_facts = example_graph_facts example_layer_facts example_registry_facts

section \<open>Facts about the initializer's loop\<close>

declare fill_loop.simps [simp del]

lemma length_object_bytes [simp]: "length (object_bytes (v :: 'a::len word)) = LENGTH('a) div 8"
  by (simp add: object_bytes_def)

lemma fill_loop_stop: "\<not> i < n \<Longrightarrow> fill_loop dist n i buf st gen = (Returns, buf, st, gen)"
  by (subst fill_loop.simps) simp

lemma fill_loop_step:
  fixes dist :: "'s \<Rightarrow> 'a::len word \<times> 's"
  shows "i < n \<Longrightarrow> i * (LENGTH('a) div 8) + LENGTH('a) div 8 \<le> length buf \<Longrightarrow> i \<noteq> 2147483647 \<Longrightarrow>
   fill_loop dist n i buf st gen =
     fill_loop dist n (Suc i)
       (store_bytes buf (i * (LENGTH('a) div 8)) (object_bytes (fst (dist gen))))
       (st @ [i]) (snd (dist gen))"
  by (subst fill_loop.simps) (simp add: split_def Let_def)

lemma fill_loop_last:
  fixes dist :: "'s \<Rightarrow> 'a::len word \<times> 's"
  shows "2147483647 < n \<Longrightarrow> 2147483647 * (LENGTH('a) div 8) + LENGTH('a) div 8 \<le> length buf \<Longrightarrow>
   fill_loop dist n 2147483647 buf st gen =
     (Fails SignedOverflow,
      store_bytes buf (2147483647 * (LENGTH('a) div 8)) (object_bytes (fst (dist gen))),
      st @ [2147483647], snd (dist gen))"
  by (subst fill_loop.simps) (simp add: split_def Let_def)

lemma fill_loop_past_end:
  fixes dist :: "'s \<Rightarrow> 'a::len word \<times> 's"
  shows "i < n \<Longrightarrow> \<not> i * (LENGTH('a) div 8) + LENGTH('a) div 8 \<le> length buf \<Longrightarrow>
   fill_loop dist n i buf st gen = (Fails OutOfBounds, buf, st, snd (dist gen))"
  by (subst fill_loop.simps) (simp add: split_def Let_def)

lemma draws_snoc: "draws dist gen (Suc k) = draws dist gen k @ [fst (dist (gen_after dist gen k))]"
  by (induction k arbitrary: gen) simp_all

lemma gen_after_Suc: "gen_after dist gen (Suc k) = snd (dist (gen_after dist gen k))"
  by (induction k arbitrary: gen) simp_all

lemma length_concat_object_bytes [simp]:
  "length (concat (map object_bytes (vs :: 'a::len word list))) = length vs * (LENGTH('a) div 8)"
  by (induction vs) simp_all

lemma length_draws [simp]: "length (draws dist gen k) = k"
  by (induction k arbitrary: gen) simp_all

lemma store_next:
  assumes "length c = k * w" "length bs = w" "k * w + w \<le> length buf"
  shows "store_bytes (c @ drop (k * w) buf) (k * w) bs = (c @ bs) @ drop (Suc k * w) buf"
  using assms by (simp add: store_bytes_def add.commute)

lemma fill_loop_steps:
  fixes dist :: "'s \<Rightarrow> 'a::len word \<times> 's"
  shows "k \<le> n \<Longrightarrow> k * (LENGTH('a) div 8) \<le> length buf \<Longrightarrow> k \<le> 2147483647 \<Longrightarrow>
   fill_loop dist n 0 buf st gen =
     fill_loop dist n k
       (concat (map object_bytes (draws dist gen k)) @ drop (k * (LENGTH('a) div 8)) buf)
       (st @ [0..<k]) (gen_after dist gen k)"
proof (induction k)
  case 0
  then show ?case by simp
next
  case (Suc k)
  let ?w = "LENGTH('a) div 8"
  let ?c = "concat (map object_bytes (draws dist gen k))"
  have ih: "fill_loop dist n 0 buf st gen =
     fill_loop dist n k (?c @ drop (k * ?w) buf) (st @ [0..<k]) (gen_after dist gen k)"
    using Suc by simp
  have step: "fill_loop dist n k (?c @ drop (k * ?w) buf) (st @ [0..<k]) (gen_after dist gen k) =
     fill_loop dist n (Suc k)
       (store_bytes (?c @ drop (k * ?w) buf) (k * ?w)
          (object_bytes (fst (dist (gen_after dist gen k)))))
       ((st @ [0..<k]) @ [k]) (snd (dist (gen_after dist gen k)))"
    using Suc.prems by (intro fill_loop_step) simp_all
  have buf: "store_bytes (?c @ drop (k * ?w) buf) (k * ?w)
          (object_bytes (fst (dist (gen_after dist gen k)))) =
        concat (map object_bytes (draws dist gen (Suc k))) @ drop (Suc k * ?w) buf"
    using Suc.prems store_next[of ?c k ?w "object_bytes (fst (dist (gen_after dist gen k)))" buf]
    by (simp add: draws_snoc del: draws.simps)
  show ?case
    unfolding ih step buf gen_after_Suc by simp
qed

lemma fill_loop_returns:
  fixes dist :: "'s \<Rightarrow> 'a::len word \<times> 's"
  assumes "n * (LENGTH('a) div 8) \<le> length buf" "n \<le> 2147483647"
  shows "fill_loop dist n 0 buf st gen =
     (Returns, concat (map object_bytes (draws dist gen n)) @ drop (n * (LENGTH('a) div 8)) buf,
      st @ [0..<n], gen_after dist gen n)"
  using fill_loop_steps[of n n buf dist st gen] assms
  by (simp add: fill_loop_stop)

lemma fill_loop_overflow:
  fixes dist :: "'s \<Rightarrow> 'a::len word \<times> 's"
  assumes "2147483647 < n" "2147483648 * (LENGTH('a) div 8) \<le> length buf"
  shows "fill_loop dist n 0 buf st gen =
     (Fails SignedOverflow,
      concat (map object_bytes (draws dist gen 2147483648)) @
        drop (2147483648 * (LENGTH('a) div 8)) buf,
      st @ [0..<2147483648], gen_after dist gen 2147483648)"
proof -
  define m :: nat where "m = 2147483647"
  let ?w = "LENGTH('a) div 8"
  let ?c = "concat (map object_bytes (draws dist gen m))"
  have m1: "2147483648 = Suc m" by (simp add: m_def)
  have mn: "m < n" "Suc m * ?w \<le> length buf" using assms by (simp_all add: m_def)
  then have mb: "m * ?w \<le> length buf" "m * ?w + ?w \<le> length buf" by simp_all
  have "fill_loop dist n 0 buf st gen =
     fill_loop dist n m (?c @ drop (m * ?w) buf) (st @ [0..<m]) (gen_after dist gen m)"
    using fill_loop_steps[of m n buf dist st gen] mn mb by (simp add: m_def)
  also have "\<dots> = (Fails SignedOverflow,
      store_bytes (?c @ drop (m * ?w) buf) (m * ?w) (object_bytes (fst (dist (gen_after dist gen m)))),
      (st @ [0..<m]) @ [m], snd (dist (gen_after dist gen m)))"
    unfolding m_def using assms by (intro fill_loop_last) simp_all
  also have "store_bytes (?c @ drop (m * ?w) buf) (m * ?w) (object_bytes (fst (dist (gen_after dist gen m))))
      = concat (map object_bytes (draws dist gen (Suc m))) @ drop (Suc m * ?w) buf"
    using store_next[of ?c m ?w "object_bytes (fst (dist (gen_after dist gen m)))" buf] mb
    by (simp add: draws_snoc del: draws.simps)
  finally show ?thesis
    unfolding m1 gen_after_Suc by (simp del: draws.simps gen_after.simps)
qed


text \<open>
  A call that passes the residency check on a layer configured for one of the
  two floating-point types, with a buffer that has room for as many values of
  that type as the tensor has elements and a counter that stays in range,
  stores one draw per element, in order, and returns.
\<close>

lemma initialize_parameters_norm_float_fills:
  assumes "is_on_host (weights L)" "layer_data_type L = FLOAT"
    and "get_num_elements (weights L) * 4 \<le> length (host_ptr (weights L))"
    and "get_num_elements (weights L) \<le> 2147483647"
  shows "initialize_parameters_norm e L seed =
     (Returns,
      L\<lparr>weights := (weights L)\<lparr>host_ptr :=
          concat (map object_bytes
            (draws (normal_float e) (mt19937 e seed) (get_num_elements (weights L)))) @
          drop (get_num_elements (weights L) * 4) (host_ptr (weights L))\<rparr>\<rparr>,
      [0..<get_num_elements (weights L)])"
  using assms
  by (simp add: initialize_parameters_norm_def Let_def fill_loop_returns)

lemma initialize_parameters_norm_double_fills:
  assumes "is_on_host (weights L)" "layer_data_type L = DOUBLE"
    and "get_num_elements (weights L) * 8 \<le> length (host_ptr (weights L))"
    and "get_num_elements (weights L) \<le> 2147483647"
  shows "initialize_parameters_norm e L seed =
     (Returns,
      L\<lparr>weights := (weights L)\<lparr>host_ptr :=
          concat (map object_bytes
            (draws (normal_double e) (mt19937 e seed) (get_num_elements (weights L)))) @
          drop (get_num_elements (weights L) * 8) (host_ptr (weights L))\<rparr>\<rparr>,
      [0..<get_num_elements (weights L)])"
  using assms
  by (simp add: initialize_parameters_norm_def Let_def fill_loop_returns)

text \<open>
  Where the weight tensor stores the type the layer is configured for, FLOAT or
  DOUBLE, in a buffer of exactly its size, and has at most \<open>2\<^sup>3\<^sup>1 - 1\<close>
  elements, the buffer after the call is the bytes of the draws and nothing
  else, whatever it held before.
\<close>

lemma initialize_parameters_norm_matching_storage:
  assumes "is_on_host (weights L)"
    and "tensor_data_type (weights L) = layer_data_type L"
    and "length (host_ptr (weights L)) =
           get_num_elements (weights L) * element_size (tensor_data_type (weights L))"
    and "get_num_elements (weights L) \<le> 2147483647"
  shows "(layer_data_type L = FLOAT \<longrightarrow>
            initialize_parameters_norm e L seed =
              (Returns,
               L\<lparr>weights := (weights L)\<lparr>host_ptr :=
                   concat (map object_bytes
                     (draws (normal_float e) (mt19937 e seed)
                        (get_num_elements (weights L))))\<rparr>\<rparr>,
               [0..<get_num_elements (weights L)])) \<and>
         (layer_data_type L = DOUBLE \<longrightarrow>
            initialize_parameters_norm e L seed =
              (Returns,
               L\<lparr>weights := (weights L)\<lparr>host_ptr :=
                   concat (map object_bytes
                     (draws (normal_double e) (mt19937 e seed)
                        (get_num_elements (weights L))))\<rparr>\<rparr>,
               [0..<get_num_elements (weights L)]))"
  using assms
  by (auto simp add: initialize_parameters_norm_float_fills initialize_parameters_norm_double_fills)

text \<open>
  With more than \<open>2\<^sup>3\<^sup>1 - 1\<close> elements the counter overflows after the store at
  index \<open>2\<^sup>3\<^sup>1 - 1\<close>; the elements from index \<open>2\<^sup>3\<^sup>1\<close> on are never stored to.
\<close>

lemma initialize_parameters_norm_counter_overflow:
  assumes "is_on_host (weights L)" "layer_data_type L = FLOAT"
    and "2147483647 < get_num_elements (weights L)"
    and "length (host_ptr (weights L)) = get_num_elements (weights L) * 4"
  shows "fst (initialize_parameters_norm e L seed) = Fails SignedOverflow \<and>
         snd (snd (initialize_parameters_norm e L seed)) = [0..<2147483648]"
proof -
  have "2147483648 * (LENGTH(32) div 8) \<le> length (host_ptr (weights L))"
    using assms(3,4) by simp
  then show ?thesis
    using assms(1,2,3)
    by (simp add: initialize_parameters_norm_def Let_def fill_loop_overflow[OF assms(3)])
qed

text \<open>
  The two failures the initializer raises itself leave the layer as it was:
  weights off the host stop the call at the assertion, and a layer configured
  for INT32 with its weights on the host stops it at the fatal log.
\<close>

lemma initializer_failure_paths:
  "(\<not> is_on_host (weights L) \<longrightarrow>
      initialize_parameters_norm e L seed = (Fails PreconditionFailure, L, [])) \<and>
   (is_on_host (weights L) \<and> layer_data_type L = INT32 \<longrightarrow>
      initialize_parameters_norm e L seed = (Fails UnsupportedConfiguration, L, []))"
  by (simp add: initialize_parameters_norm_def)

lemma small_layer_facts:
  "layer_data_type (small_layer t tw host buf) = t"
  "tensor_data_type (weights (small_layer t tw host buf)) = tw"
  "is_on_host (weights (small_layer t tw host buf)) = host"
  "host_ptr (weights (small_layer t tw host buf)) = buf"
  "shape (weights (small_layer t tw host buf)) = [1, 2]"
  "get_num_elements (weights (small_layer t tw host buf)) = 2"
  "(small_layer t tw host buf)\<lparr>weights := (weights (small_layer t tw host buf))\<lparr>host_ptr := buf'\<rparr>\<rparr>
     = small_layer t tw host buf'"
  by (simp_all add: small_layer_def get_num_elements_def)

lemma huge_layer_facts:
  "layer_data_type huge_layer = FLOAT"
  "tensor_data_type (weights huge_layer) = FLOAT"
  "is_on_host (weights huge_layer)"
  "get_num_elements (weights huge_layer) = 2147483649"
  "length (host_ptr (weights huge_layer)) = 8589934596"
  by (simp_all add: huge_layer_def get_num_elements_def)

lemma counting_engine_facts:
  "mt19937 counting_engine seed = unat seed"
  "normal_float counting_engine s = (of_nat s, Suc s)"
  "normal_double counting_engine s = (of_nat (2 * s), Suc s)"
  by (simp_all add: counting_engine_def)

lemma draws_two: "draws dist gen 2 = [fst (dist gen), fst (dist (snd (dist gen)))]"
  by (simp add: numeral_2_eq_2)

lemma object_bytes_examples:
  "object_bytes (7 :: 32 word) = [7, 0, 0, 0]"
  "object_bytes (8 :: 32 word) = [8, 0, 0, 0]"
  "object_bytes (14 :: 64 word) = [14, 0, 0, 0, 0, 0, 0, 0]"
  by (simp_all add: object_bytes_def upt_conv_Cons)

section \<open>Forward pass\<close>

text \<open>
  Claim C4. Every forward call appends exactly two operations to the graph, in
  this order: a matrix product of the input handle and a weight handle created
  in this call from the weight tensor, then a pointwise addition (mode ADD) of
  the product's output and a bias handle created in this call from the bias
  tensor. Both outputs are virtual, are named after the layer with the
  suffixes \<^verbatim>\<open>_weights_matmul_out\<close> and \<^verbatim>\<open>_bias_add_out\<close>, and have the layer's
  configured data type. The call returns the handle of the addition's output,
  leaves every object that existed before as it was, and leaves the layer, so
  every parameter tensor, unchanged.
\<close>

theorem forward_emits_matmul_then_add:
  "case add_forward_to_graph reg L g x of (out, L', g') \<Rightarrow>
     out = length (tensors g) + 3 \<and> L' = L \<and>
     sub_nodes g' = sub_nodes g @
       [Matmul x (length (tensors g)) (tensor_data_type (weights L)) (length (tensors g) + 2),
        Pointwise PointwiseMode_ADD (length (tensors g) + 2) (length (tensors g) + 1)
          (tensor_data_type (bias L)) (length (tensors g) + 3)] \<and>
     length (tensors g') = length (tensors g) + 4 \<and>
     take (length (tensors g)) (tensors g') = tensors g \<and>
     tensors g' ! length (tensors g) =
       \<lparr>name = tensor_name (weights L), data_type = tensor_data_type (weights L),
        dim = shape (weights L), is_virtual = False\<rparr> \<and>
     tensors g' ! (length (tensors g) + 1) =
       \<lparr>name = tensor_name (bias L), data_type = tensor_data_type (bias L),
        dim = shape (bias L), is_virtual = False\<rparr> \<and>
     is_virtual (tensors g' ! (length (tensors g) + 2)) \<and>
     name (tensors g' ! (length (tensors g) + 2)) = layer_name L @ ''_weights_matmul_out'' \<and>
     data_type (tensors g' ! (length (tensors g) + 2)) = layer_data_type L \<and>
     is_virtual (tensors g' ! (length (tensors g) + 3)) \<and>
     name (tensors g' ! (length (tensors g) + 3)) = layer_name L @ ''_bias_add_out'' \<and>
     data_type (tensors g' ! (length (tensors g) + 3)) = layer_data_type L"
  by (simp add: add_forward_to_graph_def create_graph_tensor_attributes_def graph_matmul_def
      graph_pointwise_def new_tensor_def update_tensor_def Let_def nth_append)

section \<open>Accessors\<close>

text \<open>
  Claim C8. \<^verbatim>\<open>get_parameters\<close> returns the addresses of the weight and the bias
  tensor, in this order, and \<^verbatim>\<open>get_gradients\<close> those of the weight gradient and
  the bias gradient, in this order. The addresses are those of the layer's own
  members (dereferencing them in the layer gives its tensors, no copy is made),
  a call leaves the layer as it was, so a repeated call returns the same
  addresses, whichever accessor ran before; the accessors have no failing path.
\<close>

theorem accessors_fixed_and_pure:
  "get_parameters L = ([Weights, Bias], L) \<and>
   get_gradients L = ([Weights_grad, Bias_grad], L) \<and>
   map (deref_member L) (fst (get_parameters L)) = [weights L, bias L] \<and>
   map (deref_member L) (fst (get_gradients L)) = [weights_grad L, bias_grad L] \<and>
   get_parameters (snd (get_parameters L)) = get_parameters L \<and>
   get_gradients (snd (get_gradients L)) = get_gradients L \<and>
   get_gradients (snd (get_parameters L)) = get_gradients L \<and>
   get_parameters (snd (get_gradients L)) = get_parameters L"
  by (simp add: get_parameters_def get_gradients_def)

section \<open>Backward pass\<close>

text \<open>
  Claim C9. The backward call checks no length. When the forward-input handle
  is live and both the forward input's shape and the weight shape have at least
  two dimensions, the indices \<open>size - 1\<close> and \<open>size - 2\<close> of both swaps lie
  inside their shape and the call returns; the out-of-bounds access happens
  exactly when one of the two shapes is shorter than two.
\<close>

theorem backward_swaps_in_bounds:
  assumes "x < length (tensors g)"
  shows "(2 \<le> length (dim (tensors g ! x)) \<and> 2 \<le> length (shape (weights L)) \<longrightarrow>
            size_t_sub (length (dim (tensors g ! x))) 1 < length (dim (tensors g ! x)) \<and>
            size_t_sub (length (dim (tensors g ! x))) 2 < length (dim (tensors g ! x)) \<and>
            size_t_sub (length (shape (weights L))) 1 < length (shape (weights L)) \<and>
            size_t_sub (length (shape (weights L))) 2 < length (shape (weights L)) \<and>
            (\<exists>g'. add_backward_to_graph reg L g dy x y = Inr (length (tensors g) + 5, L, g'))) \<and>
         (add_backward_to_graph reg L g dy x y = Inl OutOfBounds \<longleftrightarrow>
            length (dim (tensors g ! x)) < 2 \<or> length (shape (weights L)) < 2)"
proof -
  have ok: "\<exists>g'. add_backward_to_graph reg L g dy x y = Inr (length (tensors g) + 5, L, g')"
    if "2 \<le> length (dim (tensors g ! x))" "2 \<le> length (shape (weights L))"
    using add_backward_to_graph_returns[OF assms that] .
  have bad: "add_backward_to_graph reg L g dy x y = Inl OutOfBounds"
    if "length (dim (tensors g ! x)) < 2 \<or> length (shape (weights L)) < 2"
  proof (cases "length (dim (tensors g ! x)) < 2")
    case True
    then show ?thesis by (rule add_backward_to_graph_input_short[OF assms])
  next
    case False
    with that have "2 \<le> length (dim (tensors g ! x))" "length (shape (weights L)) < 2" by simp_all
    then show ?thesis by (rule add_backward_to_graph_weights_short[OF assms])
  qed
  have idx: "size_t_sub n 1 < n \<and> size_t_sub n 2 < n" if "2 \<le> n" for n
    using that by (simp add: size_t_sub_def)
  show ?thesis
  proof (intro conjI impI iffI)
    assume "add_backward_to_graph reg L g dy x y = Inl OutOfBounds"
    then show "length (dim (tensors g ! x)) < 2 \<or> length (shape (weights L)) < 2"
      using ok by fastforce
  qed (use ok bad idx in \<open>auto\<close>)
qed

theorem backward_swaps_in_bounds_witness:
  "\<exists>g'. add_backward_to_graph example_registry example_layer example_graph 1 0 0 =
      Inr (7, example_layer, g')"
proof -
  have h: "0 < length (tensors example_graph)" by (simp add: example_facts)
  show ?thesis
    using backward_swaps_in_bounds[OF h, of example_layer example_registry 1 0]
    by (simp add: example_facts)
qed

text \<open>
  Claim C3. The weight gradient is \<open>X\<^sup>T \<cdot> dY\<close>: the call exchanges the last two
  dimensions of the forward input's shape on the forward-input object itself
  (which it also marks virtual and retypes), emits no operation for the
  transposition (the three operations added are a matrix product, a reduction
  and a matrix product), multiplies the transposed input by the output gradient,
  and marks the product's output virtual under the layer's name followed by
  \<^verbatim>\<open>_weights_matmul_out_bwd\<close>.
\<close>

theorem backward_weight_gradient:
  assumes "x < length (tensors g)" "dy < length (tensors g)"
    and "dim (tensors g ! x) = pre @ [a, b]" "2 \<le> length (shape (weights L))"
  shows "\<exists>g'. add_backward_to_graph reg L g dy x y = Inr (length (tensors g) + 5, L, g') \<and>
     tensors g' ! x = (tensors g ! x)\<lparr>dim := pre @ [b, a], is_virtual := True,
                                      data_type := layer_data_type L\<rparr> \<and>
     sub_nodes g' = sub_nodes g @
       [Matmul x dy (tensor_data_type (weights_grad L)) (length (tensors g) + 1),
        Reduction ReductionMode_ADD dy (tensor_data_type (bias_grad L)) (length (tensors g) + 3),
        Matmul dy (length (tensors g) + 4) (tensor_data_type (weights_grad L))
          (length (tensors g) + 5)] \<and>
     tensors g' ! (length (tensors g) + 1) =
       \<lparr>name = layer_name L @ ''_weights_matmul_out_bwd'', data_type = layer_data_type L,
        dim = matmul_dim reg (pre @ [b, a])
                (if dy = x then pre @ [b, a] else dim (tensors g ! dy)),
        is_virtual = True\<rparr>"
proof -
  obtain wpre c d where w: "shape (weights L) = wpre @ [c, d]"
    using last_two_exist[OF assms(4)] by blast
  show ?thesis
    using assms(1)
    by (simp add: add_backward_to_graph_result[OF assms(1,2,3) w] nth_append)
qed

theorem backward_weight_gradient_witness:
  "\<exists>g'. add_backward_to_graph example_registry example_layer example_graph 1 0 0 =
           Inr (7, example_layer, g') \<and>
     tensors g' ! 0 = \<lparr>name = ''x'', data_type = FLOAT, dim = [4, 8], is_virtual = True\<rparr> \<and>
     sub_nodes g' = [Matmul 0 1 FLOAT 3, Reduction ReductionMode_ADD 1 FLOAT 5, Matmul 1 6 FLOAT 7] \<and>
     tensors g' ! 3 = \<lparr>name = ''fc_weights_matmul_out_bwd'', data_type = FLOAT, dim = [4, 3],
                       is_virtual = True\<rparr>"
proof -
  have h: "0 < length (tensors example_graph)" "1 < length (tensors example_graph)"
    "dim (tensors example_graph ! 0) = [] @ [8, 4]" "2 \<le> length (shape (weights example_layer))"
    by (simp_all add: example_facts)
  show ?thesis
    using backward_weight_gradient[OF h, of example_registry 0]
    by (simp add: example_facts)
qed







text \<open>
  Claim C1. On the example of the spec the call returns, and leaves the layer
  as it was. The handles 2 and 4, which it creates from the weight-gradient
  and the bias-gradient tensor, occur in none of the three operations it
  emits; the outputs of the weight-gradient product and of the bias-gradient
  reduction are the separate objects 3 and 5, virtual and named after the layer.
  Nothing connects the emitted gradients to the tensors \<^verbatim>\<open>get_gradients\<close>
  returns.
\<close>

theorem backward_gradients_not_wired:
  "case add_backward_to_graph example_registry example_layer example_graph 1 0 0 of
     Inl e \<Rightarrow> False
   | Inr (r, L', g') \<Rightarrow>
       L' = example_layer \<and>
       tensors g' ! 2 = \<lparr>name = ''dw'', data_type = FLOAT, dim = [4, 3], is_virtual = False\<rparr> \<and>
       tensors g' ! 4 = \<lparr>name = ''db'', data_type = FLOAT, dim = [3], is_virtual = False\<rparr> \<and>
       sub_nodes g' =
         [Matmul 0 1 FLOAT 3, Reduction ReductionMode_ADD 1 FLOAT 5, Matmul 1 6 FLOAT 7] \<and>
       2 \<notin> set (concat (map handles_of (sub_nodes g'))) \<and>
       4 \<notin> set (concat (map handles_of (sub_nodes g'))) \<and>
       map output_of (sub_nodes g') = [3, 5, 7] \<and>
       map (\<lambda>h. (name (tensors g' ! h), is_virtual (tensors g' ! h))) [3, 5] =
         [(''fc_weights_matmul_out_bwd'', True), (''fc_bias_add_out_bwd'', True)]"
proof -
  have h: "0 < length (tensors example_graph)" "1 < length (tensors example_graph)"
    "dim (tensors example_graph ! 0) = [] @ [8, 4]" "shape (weights example_layer) = [] @ [4, 3]"
    by (simp_all add: example_facts)
  show ?thesis
    by (simp add: add_backward_to_graph_result[OF h, unfolded One_nat_def] example_facts nth_append)
qed

section \<open>Initializer\<close>

text \<open>
  Claim C5. The fatal path is chosen by the layer's configured data type, not
  by the type of the weight tensor. On a layer configured for FLOAT whose
  weight tensor stores two 32-bit integers on the host, in a buffer of their
  eight bytes, the call overwrites both integers with the bytes of the two
  draws and returns normally.
\<close>

theorem integer_weights_overwritten:
  "tensor_data_type (weights (small_layer FLOAT INT32 True [1, 0, 0, 0, 2, 0, 0, 0])) = INT32 \<and>
   is_on_host (weights (small_layer FLOAT INT32 True [1, 0, 0, 0, 2, 0, 0, 0])) \<and>
   length (host_ptr (weights (small_layer FLOAT INT32 True [1, 0, 0, 0, 2, 0, 0, 0]))) =
     get_num_elements (weights (small_layer FLOAT INT32 True [1, 0, 0, 0, 2, 0, 0, 0])) *
     element_size INT32 \<and>
   initialize_parameters_norm counting_engine
       (small_layer FLOAT INT32 True [1, 0, 0, 0, 2, 0, 0, 0]) 7 =
     (Returns, small_layer FLOAT INT32 True [7, 0, 0, 0, 8, 0, 0, 0], [0, 1])"
  using initialize_parameters_norm_float_fills
          [of "small_layer FLOAT INT32 True [1, 0, 0, 0, 2, 0, 0, 0]" counting_engine 7]
  by (simp add: small_layer_facts counting_engine_facts draws_two upt_conv_Cons
      object_bytes_examples)

text \<open>
  Claim C7. The width of the stores follows the layer's configured data type,
  not the type of the weight tensor, and the counter of the loop is an
  \<^verbatim>\<open>int\<close>. On host-resident float weight tensors of two elements (eight bytes)
  in a layer configured for DOUBLE, the first store covers the whole buffer and
  the second reaches past its end. On host-resident double weight tensors of
  two elements (sixteen bytes) in a layer configured for FLOAT, the two stores
  cover the first eight bytes only, so that two buffers that differ in the
  second element still differ after calls with the same seed. On a
  host-resident float weight tensor of \<open>2\<^sup>3\<^sup>1 + 1\<close> elements in a layer configured
  for FLOAT, the counter overflows after the store at index \<open>2\<^sup>3\<^sup>1 - 1\<close> and the
  last element is never stored to.
\<close>

theorem initializer_fill_depends_on_layer_type:
  "length (host_ptr (weights (small_layer DOUBLE FLOAT True [1, 2, 3, 4, 5, 6, 7, 8]))) =
     get_num_elements (weights (small_layer DOUBLE FLOAT True [1, 2, 3, 4, 5, 6, 7, 8])) *
     element_size FLOAT \<and>
   length (host_ptr (weights (small_layer FLOAT DOUBLE True (replicate 16 0)))) =
     get_num_elements (weights (small_layer FLOAT DOUBLE True (replicate 16 0))) *
     element_size DOUBLE \<and>
   initialize_parameters_norm counting_engine
       (small_layer DOUBLE FLOAT True [1, 2, 3, 4, 5, 6, 7, 8]) 7 =
     (Fails OutOfBounds, small_layer DOUBLE FLOAT True [14, 0, 0, 0, 0, 0, 0, 0], [0]) \<and>
   initialize_parameters_norm counting_engine
       (small_layer FLOAT DOUBLE True (replicate 16 0)) 7 =
     (Returns, small_layer FLOAT DOUBLE True ([7, 0, 0, 0, 8, 0, 0, 0] @ replicate 8 0), [0, 1]) \<and>
   initialize_parameters_norm counting_engine
       (small_layer FLOAT DOUBLE True (replicate 16 255)) 7 =
     (Returns, small_layer FLOAT DOUBLE True ([7, 0, 0, 0, 8, 0, 0, 0] @ replicate 8 255), [0, 1]) \<and>
   get_num_elements (weights huge_layer) = 2147483649 \<and>
   length (host_ptr (weights huge_layer)) =
     get_num_elements (weights huge_layer) * element_size (tensor_data_type (weights huge_layer)) \<and>
   fst (initialize_parameters_norm counting_engine huge_layer 7) = Fails SignedOverflow \<and>
   snd (snd (initialize_parameters_norm counting_engine huge_layer 7)) = [0..<2147483648]"
proof -
  have a: "initialize_parameters_norm counting_engine
       (small_layer DOUBLE FLOAT True [1, 2, 3, 4, 5, 6, 7, 8]) 7 =
     (Fails OutOfBounds, small_layer DOUBLE FLOAT True [14, 0, 0, 0, 0, 0, 0, 0], [0])"
    by (simp add: initialize_parameters_norm_def small_layer_facts counting_engine_facts
        fill_loop_step fill_loop_past_end store_bytes_def object_bytes_examples)
  have b: "initialize_parameters_norm counting_engine
       (small_layer FLOAT DOUBLE True (replicate 16 v)) 7 =
     (Returns, small_layer FLOAT DOUBLE True ([7, 0, 0, 0, 8, 0, 0, 0] @ replicate 8 v), [0, 1])"
    for v
    using initialize_parameters_norm_float_fills
          [of "small_layer FLOAT DOUBLE True (replicate 16 v)" counting_engine 7]
    by (simp add: small_layer_facts counting_engine_facts draws_two upt_conv_Cons
        object_bytes_examples)
  have c: "fst (initialize_parameters_norm counting_engine huge_layer 7) = Fails SignedOverflow \<and>
     snd (snd (initialize_parameters_norm counting_engine huge_layer 7)) = [0..<2147483648]"
    by (rule initialize_parameters_norm_counter_overflow) (simp_all add: huge_layer_facts)
  show ?thesis
    using a b[of 0] b[of 255] c by (simp add: huge_layer_facts small_layer_facts)
qed

text \<open>
  Claim C10, as amended. The branch taken depends on the layer's configured
  data type alone: replacing the storage type of the weight tensor changes
  nothing of the outcome but that field. When the weights are on the host and
  the configured type is none of FLOAT, DOUBLE and INT32, the call returns
  with the layer as it was and nothing stored.
\<close>

theorem initializer_other_types_noop:
  "(is_on_host (weights L) \<and> layer_data_type L \<noteq> FLOAT \<and> layer_data_type L \<noteq> DOUBLE \<and>
      layer_data_type L \<noteq> INT32 \<longrightarrow>
      initialize_parameters_norm e L seed = (Returns, L, [])) \<and>
   initialize_parameters_norm e (L\<lparr>weights := (weights L)\<lparr>tensor_data_type := tw\<rparr>\<rparr>) seed =
     (case initialize_parameters_norm e L seed of
        (res, L', stores) \<Rightarrow>
          (res, L'\<lparr>weights := (weights L')\<lparr>tensor_data_type := tw\<rparr>\<rparr>, stores))"
  by (simp add: initialize_parameters_norm_def get_num_elements_def Let_def split_def)

theorem initializer_other_types_noop_witness:
  "initialize_parameters_norm counting_engine
       (small_layer BFLOAT16 FLOAT True [5, 9, 0, 0, 1, 2, 3, 4]) 7 =
     (Returns, small_layer BFLOAT16 FLOAT True [5, 9, 0, 0, 1, 2, 3, 4], [])"
  using initializer_other_types_noop
          [of "small_layer BFLOAT16 FLOAT True [5, 9, 0, 0, 1, 2, 3, 4]" counting_engine 7]
  by (simp add: small_layer_facts)

text \<open>
  The claim as stated promises that no precondition failure is raised for such
  a type. On a layer configured for HALF whose weights are not on the host the
  call stops at the precondition failure.
\<close>

theorem other_type_off_host_fails:
  "layer_data_type (small_layer HALF HALF False [5, 9, 5, 9]) = HALF \<and>
   initialize_parameters_norm counting_engine (small_layer HALF HALF False [5, 9, 5, 9]) 7 =
     (Fails PreconditionFailure, small_layer HALF HALF False [5, 9, 5, 9], [])"
  by (simp add: initialize_parameters_norm_def small_layer_facts)

end
